theory Spec2Isabelle
  imports Main "HOL-Library.Word"
begin

section \<open>Error codes and the random source\<close>

text \<open>
  The C functions of \<^verbatim>\<open>rsa.c\<close> return \<^verbatim>\<open>0\<close> on success and a negated
  \<^verbatim>\<open>errno\<close> value on failure. GMP itself has no error return: a division by zero
  inside the library aborts the process; that outcome is the fourth error.
\<close>

datatype error = EINVAL | EFAULT | EACCES | DivideByZero

text \<open>
  The process-wide random state of \<^verbatim>\<open>gmp_helper.c\<close> is made explicit: a source is an
  infinite sequence of raw draws, and every function that draws takes the position of
  the next unread draw and returns the new position.
\<close>

type_synonym randsrc = "nat \<Rightarrow> nat"

definition fixed_draws :: "nat list \<Rightarrow> randsrc" where
  "fixed_draws xs i = (if i < length xs then xs ! i else 0)"

section \<open>The GMP operations used by the program\<close>

text \<open>
  \<^verbatim>\<open>mpz_t\<close> is an unbounded signed integer: type \<^typ>\<open>int\<close>. Addition, subtraction and
  multiplication are those of \<^typ>\<open>int\<close>; \<^verbatim>\<open>mpz_mod_ui\<close>, \<^verbatim>\<open>mpz_mod\<close> and
  \<^verbatim>\<open>mpz_div_ui\<close> (floor division) are \<open>mod\<close> and \<open>div\<close> by the absolute value of the
  divisor; \<^verbatim>\<open>mpz_gcd\<close> is \<^const>\<open>gcd\<close>.
\<close>

text \<open>
  \<^verbatim>\<open>mpz_invert(rop, a, m)\<close>: the inverse of \<open>a\<close> modulo \<open>m\<close> in \<open>[0, |m|)\<close>, if there
  is one (\<open>0\<close> when \<open>|m| = 1\<close>); no result otherwise.
\<close>

definition mpz_invert :: "int \<Rightarrow> int \<Rightarrow> int option" where
  "mpz_invert a m =
     find (\<lambda>d. (a * d) mod \<bar>m\<bar> = 1 mod \<bar>m\<bar>) (map int [0..<nat \<bar>m\<bar>])"

text \<open>
  \<^verbatim>\<open>mpz_powm(rop, b, e, m)\<close>: \<open>b ^ e mod |m|\<close>; a negative exponent goes through the
  inverse of the base; a zero modulus, or a base without inverse under a negative
  exponent, is a division by zero.
\<close>

definition mpz_powm :: "int \<Rightarrow> int \<Rightarrow> int \<Rightarrow> error + int" where
  "mpz_powm b e m =
     (if m = 0 then Inl DivideByZero
      else if 0 \<le> e then Inr (b ^ nat e mod \<bar>m\<bar>)
      else (case mpz_invert b m of
              None \<Rightarrow> Inl DivideByZero
            | Some bi \<Rightarrow> Inr (bi ^ nat (- e) mod \<bar>m\<bar>)))"

text \<open>
  \<^verbatim>\<open>mpz_jacobi(a, b)\<close>: the Jacobi symbol, which GMP computes as the Kronecker symbol:
  the product, over the prime factors of \<open>|b|\<close> with multiplicity, of the Legendre
  symbol of \<open>a\<close> (for the factor 2: of the symbol \<open>(a/2)\<close>), negated when both \<open>a\<close> and
  \<open>b\<close> are negative; \<open>(a/0)\<close> is 1 for \<open>a = \<plusminus>1\<close> and 0 otherwise.
\<close>

definition legendre :: "int \<Rightarrow> nat \<Rightarrow> int" where
  "legendre a p =
     (if int p dvd a then 0
      else if (\<exists>x\<in>{1..<p}. (int x * int x) mod int p = a mod int p) then 1
      else - 1)"

definition kronecker2 :: "int \<Rightarrow> int" where
  "kronecker2 a =
     (if even a then 0 else if a mod 8 = 1 \<or> a mod 8 = 7 then 1 else - 1)"

function jacobi_from :: "int \<Rightarrow> nat \<Rightarrow> nat \<Rightarrow> int" where
  "jacobi_from a d m =
     (if m \<le> 1 \<or> d < 2 \<or> m < d then 1
      else if d dvd m
        then (if d = 2 then kronecker2 a else legendre a d) * jacobi_from a d (m div d)
      else jacobi_from a (Suc d) m)"
  by pat_completeness auto
termination
proof (relation "measures [\<lambda>(a, d, m). m, \<lambda>(a, d, m). m - d]")
  show "wf (measures [\<lambda>(a::int, d::nat, m::nat). m, \<lambda>(a, d, m). m - d])"
    by simp
next
  fix a :: int and d m :: nat
  assume "\<not> (m \<le> 1 \<or> d < 2 \<or> m < d)" "d dvd m"
  then show "((a, d, m div d), (a, d, m)) \<in> measures [\<lambda>(a, d, m). m, \<lambda>(a, d, m). m - d]"
    by simp
next
  fix a :: int and d m :: nat
  assume h: "\<not> (m \<le> 1 \<or> d < 2 \<or> m < d)" "\<not> d dvd m"
  then have "d \<noteq> m" by auto
  with h show "((a, Suc d, m), (a, d, m)) \<in> measures [\<lambda>(a, d, m). m, \<lambda>(a, d, m). m - d]"
    by auto
qed

declare jacobi_from.simps [simp del]

definition mpz_jacobi :: "int \<Rightarrow> int \<Rightarrow> int" where
  "mpz_jacobi a b =
     (if b = 0 then (if \<bar>a\<bar> = 1 then 1 else 0)
      else (if a < 0 \<and> b < 0 then - 1 else 1) * jacobi_from a 2 (nat \<bar>b\<bar>))"

text \<open>
  \<^verbatim>\<open>mpz_set_ui(x, (uint64_t)j)\<close>: the \<^verbatim>\<open>int\<close> result \<open>j\<close> of \<^verbatim>\<open>mpz_jacobi\<close> is converted
  to an unsigned 64-bit value before it is stored, so \<open>-1\<close> is stored as \<open>2^64 - 1\<close>.
\<close>

definition mpz_set_ui_uint64 :: "int \<Rightarrow> int" where
  "mpz_set_ui_uint64 j = uint (word_of_int j :: 64 word)"

section \<open>The helpers of gmp\_helper.c\<close>

text \<open>
  Modelled from the spec: \<^verbatim>\<open>__mpz_urandomm\<close> of \<^verbatim>\<open>gmp_helper.c\<close>, which is not among
  the sources. The spec asks for "uniform random sampling below a bound"; the raw draw
  is reduced below the bound, whose sign is ignored as \<^verbatim>\<open>mpz_urandomm\<close> does, and a
  zero bound is a division by zero.
\<close>

definition helper_mpz_urandomm :: "randsrc \<Rightarrow> nat \<Rightarrow> int \<Rightarrow> error + (int \<times> nat)" where
  "helper_mpz_urandomm rnd pos t =
     (if t = 0 then Inl DivideByZero else Inr (int (rnd pos) mod \<bar>t\<bar>, Suc pos))"

section \<open>PrimalityTester: primality\_test\<close>

text \<open>
  One pass through the body of \<^verbatim>\<open>while (k-- > 0)\<close>. The temporary \<open>t\<close> holds the
  sampling bound on entry; the pass returns whether it accepted (\<^verbatim>\<open>return 1\<close>), the
  value it leaves in \<open>t\<close>, and the position of the random source.
\<close>

definition primality_trial :: "randsrc \<Rightarrow> int \<Rightarrow> int \<Rightarrow> nat \<Rightarrow> error + (bool \<times> int \<times> nat)" where
  "primality_trial rnd n t pos =
     (case helper_mpz_urandomm rnd pos t of
        Inl err \<Rightarrow> Inl err
      | Inr (a0, pos') \<Rightarrow>
          let a = a0 + 2;
              x0 = mpz_set_ui_uint64 (mpz_jacobi a n);
              x = (if x0 = - 1 then n - 1 else x0)
          in if x \<noteq> 0 then
               (case mpz_powm a ((n - 1) div 2) n of
                  Inl err \<Rightarrow> Inl err
                | Inr a' \<Rightarrow> Inr (a' = x, (n - 1) div 2, pos'))
             else Inr (False, t, pos'))"

fun primality_loop :: "randsrc \<Rightarrow> int \<Rightarrow> nat \<Rightarrow> int \<Rightarrow> nat \<Rightarrow> error + (int \<times> nat)" where
  "primality_loop rnd n 0 t pos = Inr (0, pos)"
| "primality_loop rnd n (Suc k) t pos =
     (case primality_trial rnd n t pos of
        Inl err \<Rightarrow> Inl err
      | Inr (accepted, t', pos') \<Rightarrow>
          if accepted then Inr (1, pos') else primality_loop rnd n k t' pos')"

definition primality_test :: "randsrc \<Rightarrow> int \<Rightarrow> nat \<Rightarrow> nat \<Rightarrow> error + (int \<times> nat)" where
  "primality_test rnd n k pos =
     (if n = 1 then Inr (0, pos)
      else if n = 2 then Inr (1, pos)
      else if n mod 2 = 0 then Inr (0, pos)
      else primality_loop rnd n k (n - 2) pos)"

section \<open>Properties of the primality test\<close>

lemma mpz_set_ui_uint64_minus1: "mpz_set_ui_uint64 (- 1) = 18446744073709551615"
  by (simp add: mpz_set_ui_uint64_def uint_word_ariths)

lemmas jacobi_eval =
  mpz_jacobi_def jacobi_from.simps legendre_def kronecker2_def atLeastLessThan_upt upt_rec

lemma mpz_jacobi_2_3: "mpz_jacobi 2 3 = - 1"
  by (simp add: jacobi_eval)

lemma mpz_jacobi_3_7: "mpz_jacobi 3 7 = - 1"
  by (simp add: jacobi_eval)

lemma mpz_jacobi_4_minus3: "mpz_jacobi 4 (- 3) = 1"
  by (simp add: jacobi_eval)

lemma primality_trial_3: "primality_trial rnd 3 1 pos = Inr (False, 1, Suc pos)"
  by (simp add: primality_trial_def helper_mpz_urandomm_def mpz_jacobi_2_3
      mpz_set_ui_uint64_minus1 mpz_powm_def Let_def)

lemma primality_loop_3: "primality_loop rnd 3 k 1 pos = Inr (0, pos + k)"
  by (induction k arbitrary: pos) (simp_all add: primality_trial_3)

text \<open>
  C6 (evaluation of the code where it departs from the claim). The first trial on the
  candidate 7 starts with the bound \<open>7 - 2 = 5\<close> in \<open>t\<close>, draws \<open>a = 3\<close>, does not
  accept, and leaves \<open>(7 - 1) div 2 = 3\<close> in \<open>t\<close>: the second trial samples below 3,
  where the raw draw 4 gives \<open>a = 1 + 2\<close>; below the bound \<open>7 - 2\<close> the same draw would
  have given \<open>a = 4 + 2\<close>.
\<close>

theorem primality_trial_clobbers_bound:
  "primality_trial (fixed_draws [1, 4]) 7 (7 - 2) 0 = Inr (False, 3, 1) \<and>
   helper_mpz_urandomm (fixed_draws [1, 4]) 1 3 = Inr (1, 2) \<and>
   helper_mpz_urandomm (fixed_draws [1, 4]) 1 (7 - 2) = Inr (4, 2)"
  by (simp add: primality_trial_def helper_mpz_urandomm_def fixed_draws_def mpz_jacobi_3_7
      mpz_set_ui_uint64_minus1 mpz_powm_def Let_def)

text \<open>
  C7, the claim as stated fails: the candidate \<open>-3\<close> is less than 2, and one round whose
  draw gives \<open>a = 4\<close> reports it as probably prime.
\<close>

theorem primality_test_negative_odd_accepted:
  "(- 3 :: int) < 2 \<and> primality_test (fixed_draws [2]) (- 3) 1 0 = Inr (1, 1)"
  by (simp add: primality_test_def primality_trial_def helper_mpz_urandomm_def fixed_draws_def
      mpz_jacobi_4_minus3 mpz_set_ui_uint64_def mpz_powm_def mpz_invert_def Let_def upt_rec)

text \<open>
  C7, amended. Whatever the number of rounds and the random source, the test returns 0
  for the candidates 0 and 1, returns 1 for the candidate 2, and returns 0 for every
  even candidate other than 2; none of these draws a random value.
\<close>

theorem primality_test_early_exits:
  "(n = 0 \<or> n = 1 \<longrightarrow> primality_test rnd n k pos = Inr (0, pos)) \<and>
   primality_test rnd 2 k pos = Inr (1, pos) \<and>
   (even n \<and> n \<noteq> 2 \<longrightarrow> primality_test rnd n k pos = Inr (0, pos))"
  by (auto simp: primality_test_def)

theorem primality_test_early_exits_witness:
  "primality_test (fixed_draws [1]) 0 5 0 = Inr (0, 0) \<and>
   primality_test (fixed_draws [1]) 1 5 0 = Inr (0, 0) \<and>
   primality_test (fixed_draws [1]) 2 5 0 = Inr (1, 0) \<and>
   primality_test (fixed_draws [1]) (- 4) 5 0 = Inr (0, 0)"
  using primality_test_early_exits [of 0 "fixed_draws [1]" 5 0]
    primality_test_early_exits [of 1 "fixed_draws [1]" 5 0]
    primality_test_early_exits [of "- 4" "fixed_draws [1]" 5 0]
  by simp

text \<open>
  C8 (evaluation of the code where it departs from the claim). For the candidate 3 every
  trial draws \<open>a = 2\<close>, whose Jacobi symbol is \<open>-1\<close> and whose residue \<open>2 ^ 1 mod 3\<close> is
  \<open>2 = 3 - 1\<close>, the expected residue. The code stores the symbol as \<open>2^64 - 1\<close>, never
  accepts, and returns 0 after \<open>k\<close> trials, for every \<open>k\<close> and every random source.
\<close>

theorem primality_test_3_rejected: "primality_test rnd 3 k pos = Inr (0, pos + k)"
  by (simp add: primality_test_def primality_loop_3)

text \<open>
  C10. With zero rounds the test returns 0 for every odd candidate greater than 2: the
  loop body, the only place that accepts, is never entered.
\<close>

theorem primality_test_zero_rounds:
  "odd n \<Longrightarrow> 2 < n \<Longrightarrow> primality_test rnd n 0 pos = Inr (0, pos)"
  by (auto simp: primality_test_def)

theorem primality_test_zero_rounds_witness:
  "odd (7::int) \<and> (2::int) < 7 \<and> primality_test (fixed_draws []) 7 0 0 = Inr (0, 0)"
  using primality_test_zero_rounds [of 7 "fixed_draws []" 0] by simp

end
